theory Spec2Isabelle
  imports Complex_Main
begin

section \<open>The gateway routine of pwvd6 (func\_wrap/pwvd6\_m.c)\<close>

text \<open>
  The file holds one function, \<open>mexFunction\<close>: it checks the number of arguments, the
  shape of the signal and the scalar parameters, rounds the interpolation degree and the
  FFT length up to powers of two, allocates the output matrix and calls the engine
  \<open>pwvd61\<close>.

  The C type \<open>int\<close> is modelled as \<open>int\<close> with the 32-bit two's complement wrap-around
  written out where the code computes a value that can leave the range: the left shifts
  of the two rounding loops and the increment of \<open>window_order\<close>. (A signed shift that
  overflows has no defined value in C; the model gives it the value that a two's
  complement machine computes.) Every other \<open>int\<close> of the function is a value read
  from an argument or a copy of one.
\<close>

subsection \<open>Machine arithmetic\<close>

definition int32 :: "int \<Rightarrow> int" where
  "int32 x = (x + 2 ^ 31) mod 2 ^ 32 - 2 ^ 31"

text \<open>\<open>x <<= 1\<close> on a 32-bit \<open>int\<close>.\<close>

definition shl1 :: "int \<Rightarrow> int" where
  "shl1 x = int32 (2 * x)"

text \<open>
  The gateway uses \<open>double\<close> twice, on values that come from an \<open>int\<close>:
  \<open>(int) ceil((double)signal_length/time_res)\<close> and \<open>(int)(window_r2*0.5)\<close>. The model
  computes them on the reals. The product by \<open>0.5\<close> is exact in a \<open>double\<close>; the
  quotient of two 32-bit values, when it is not an integer, is further from every integer
  than the rounding of a \<open>double\<close> can move it, so that \<open>ceil\<close> gives the same result.

  The cast \<open>(int)\<close> of a \<open>double\<close>: truncation towards zero.
\<close>

definition c_int :: "real \<Rightarrow> int" where
  "c_int r = (if 0 \<le> r then \<lfloor>r\<rfloor> else \<lceil>r\<rceil>)"

text \<open>\<open>ceil\<close> of \<open>math.h\<close>: a \<open>double\<close> again.\<close>

definition c_ceil :: "real \<Rightarrow> real" where
  "c_ceil r = of_int \<lceil>r\<rceil>"

subsection \<open>Arguments, host routines and what the caller observes\<close>

text \<open>
  An argument \<open>prhs[k]\<close> as far as the gateway reads it: the answers of \<open>mxIsNumeric\<close>,
  \<open>MXFULL\<close> and \<open>mxIsComplex\<close>, the dimensions as read through \<open>(int)mxGetM\<close> and
  \<open>(int)mxGetN\<close>, and the first real element as read through \<open>(int)*(mxGetPr(...))\<close>.
  The three numbers are the values of type \<open>int\<close> that the casts deliver. The samples of
  the signal are read by the engine alone, which receives the argument as a whole.
\<close>

record MATRIX =
  mxIsNumeric :: bool
  MXFULL :: bool
  mxIsComplex :: bool
  mxGetM :: int
  mxGetN :: int
  mxGetPr0 :: int

text \<open>
  The routines the gateway calls and whose bodies are in other files: \<open>GoodScalar\<close>
  (tfsa\_c.c), the allocator \<open>MXCREATEFULL\<close>, of which the gateway only tests whether
  the result is \<open>NULL\<close>, and the engine \<open>pwvd61\<close> (pwvd6.c), of which it only tests
  whether the result is zero. They are parameters of the model. The engine receives the
  signal and, in the order of the call, \<open>signal_length\<close>, \<open>nplts\<close>, \<open>time_res\<close>,
  \<open>window_length\<close>, \<open>window_r2\<close>, \<open>window_order\<close> and \<open>deg\<close>.
\<close>

record host =
  GoodScalar :: "MATRIX \<Rightarrow> bool"
  MXCREATEFULL :: "int \<Rightarrow> int \<Rightarrow> bool"
  pwvd61 :: "MATRIX \<Rightarrow> int \<Rightarrow> int \<Rightarrow> int \<Rightarrow> int \<Rightarrow> int \<Rightarrow> int \<Rightarrow> int \<Rightarrow> int"

text \<open>The local variables of \<open>mexFunction\<close> when parameter processing is over.\<close>

record locals =
  signal_length :: int
  window_length :: int
  time_res :: int
  deg :: int
  fft_length :: int
  nplts :: int
  window_order :: int
  window_r2 :: int

text \<open>
  The calls by which the gateway reaches the outside, in the order in which they happen.
  \<open>tfsaErr\<close>, \<open>tfsaWarning\<close> and \<open>winNTcheck\<close> are recorded with their arguments; their
  bodies are in tfsa\_c.c.
\<close>

datatype event =
    TfsaErr string string
  | TfsaWarning string string
  | WinNTcheck int
  | MxCreateFull int int
  | Pwvd61 locals

text \<open>
  The outcome of a call: what the gateway has assigned to \<open>plhs[0]\<close> (the dimensions of
  the matrix, or nothing) and the calls it made. The only assignment to \<open>plhs[0]\<close> in the
  function is the one of line 219; \<open>winNTcheck\<close> receives \<open>plhs\<close>, and the record of its
  call stands for whatever it does there.
\<close>

record outcome =
  plhs0 :: "(int \<times> int) option"
  trace :: "event list"

subsection \<open>The two rounding loops\<close>

text \<open>
  \<open>deg_r2 = 1; while (deg_r2 < deg) deg_r2 <<= 1;\<close> A loop that does not return has
  the value \<open>None\<close>.
\<close>

partial_function (option) deg_loop :: "int \<Rightarrow> int \<Rightarrow> int option" where
  "deg_loop deg_r2 d =
     (if deg_r2 < d then deg_loop (shl1 deg_r2) d else Some deg_r2)"

text \<open>
  \<open>window_order = 0; window_r2 = 1;
  while (window_r2 < fft_length) { window_order++; window_r2 <<= 1; }\<close>
\<close>

partial_function (option) radix_loop :: "int \<Rightarrow> int \<Rightarrow> int \<Rightarrow> (int \<times> int) option" where
  "radix_loop w_order w_r2 fft =
     (if w_r2 < fft then radix_loop (int32 (w_order + 1)) (shl1 w_r2) fft
      else Some (w_order, w_r2))"

subsection \<open>The gateway\<close>

text \<open>An error path: \<open>tfsaErr("pwvd61", msg); winNTcheck(nlhs, plhs); return;\<close>\<close>

definition err_return :: "int \<Rightarrow> string \<Rightarrow> event list" where
  "err_return nlhs msg = [TfsaErr ''pwvd61'' msg, WinNTcheck nlhs]"

text \<open>
  Lines 58 to 217: the checks and the computation of the local variables. The result is
  \<open>None\<close> when one of the loops does not return, \<open>Inl\<close> of the calls made when a check
  returns early, and otherwise \<open>Inr\<close> of the warnings raised and the local variables.
\<close>

definition mexFunction_args ::
  "host \<Rightarrow> int \<Rightarrow> MATRIX list \<Rightarrow> (event list + event list \<times> locals) option" where
  "mexFunction_args h nlhs prhs =
    (let nrhs = int (length prhs) in
     if nrhs < 4 then Some (Inl (err_return nlhs ''Not enough input arguments''))
     else if nrhs > 5 then Some (Inl (err_return nlhs ''Too many input arguments''))
     else if nlhs > 1 then Some (Inl (err_return nlhs ''Too many output arguments''))
     else if \<not> mxIsNumeric (prhs ! 0) \<or> \<not> MXFULL (prhs ! 0)
       then Some (Inl (err_return nlhs ''Input must be a vector''))
     else
      let M = mxGetM (prhs ! 0); N = mxGetN (prhs ! 0) in
      if (M = 1 \<and> N = 1) \<or> (M \<noteq> 1 \<and> N \<noteq> 1)
        then Some (Inl (err_return nlhs ''Input must be a vector''))
      else
       let sl = (if M > N then M else N) in
       if \<not> GoodScalar h (prhs ! 1)
         then Some (Inl (err_return nlhs ''Smoothing window length must be a scalar''))
       else
        let wl0 = mxGetPr0 (prhs ! 1) in
        if wl0 < 1
          then Some (Inl (err_return nlhs ''Window length must be greater than zero''))
        else
         let ws = (if wl0 > sl
                   then [TfsaWarning ''pwvd61''
                           ''Window length has been truncated to signal length'']
                   else []);
             wl = (if wl0 > sl then sl else wl0) in
         if \<not> GoodScalar h (prhs ! 2)
           then Some (Inl (ws @ err_return nlhs ''Time resolution must be a scalar''))
         else
          let tr = mxGetPr0 (prhs ! 2) in
          if tr < 1
            then Some (Inl (ws @ err_return nlhs
                         ''Time resolution must be greater than zero''))
          else if tr > sl
            then Some (Inl (ws @ err_return nlhs
                         ''Time resolution must be no greater than signal length''))
          else if \<not> GoodScalar h (prhs ! 3)
            then Some (Inl (ws @ err_return nlhs ''Interpolation degree must be a scalar''))
          else
           case deg_loop 1 (mxGetPr0 (prhs ! 3)) of
             None \<Rightarrow> None
           | Some dg \<Rightarrow>
              if nrhs = 5 \<and> \<not> GoodScalar h (prhs ! 4)
                then Some (Inl (ws @ err_return nlhs ''FFT length must be a scalar''))
              else
               let fl0 = (if nrhs = 5 then mxGetPr0 (prhs ! 4) else wl) in
               if fl0 < 0
                 then Some (Inl (ws @ err_return nlhs
                              ''FFT length must be greater than zero''))
               else
                let fl = (if fl0 < wl then wl else fl0);
                    np = c_int (c_ceil (real_of_int sl / real_of_int tr)) in
                (case radix_loop 0 1 fl of
                   None \<Rightarrow> None
                 | Some (wo, wr2) \<Rightarrow>
                    Some (Inr (ws, \<lparr>signal_length = sl, window_length = wl,
                                     time_res = tr, deg = dg, fft_length = fl,
                                     nplts = np, window_order = wo, window_r2 = wr2\<rparr>))))"

text \<open>
  The engine call of line 228, with the arguments in the order of the source.
\<close>

definition call_pwvd61 :: "host \<Rightarrow> MATRIX \<Rightarrow> locals \<Rightarrow> int" where
  "call_pwvd61 h sig l =
     pwvd61 h sig (signal_length l) (nplts l) (time_res l) (window_length l)
       (window_r2 l) (window_order l) (deg l)"

text \<open>
  Lines 219 to 233: the allocation of \<open>plhs[0]\<close> with \<open>(int)(window_r2*0.5)\<close> rows
  and \<open>nplts\<close> columns, and the call of the engine. When the allocator returns \<open>NULL\<close>
  the gateway reports it and returns. When the engine returns a nonzero value the gateway
  reports it and ends; \<open>plhs[0]\<close> is not assigned again.
\<close>

definition mexFunction_run :: "host \<Rightarrow> int \<Rightarrow> MATRIX \<Rightarrow> locals \<Rightarrow> outcome" where
  "mexFunction_run h nlhs sig l =
    (let rows = c_int (real_of_int (window_r2 l) * 0.5);
         evs = [MxCreateFull rows (nplts l)] in
     if \<not> MXCREATEFULL h rows (nplts l)
       then \<lparr>plhs0 = None, trace = evs @ err_return nlhs ''Memory allocation failed''\<rparr>
     else if call_pwvd61 h sig l \<noteq> 0
       then \<lparr>plhs0 = Some (rows, nplts l),
              trace = evs @ [Pwvd61 l] @ err_return nlhs ''Function failed''\<rparr>
     else \<lparr>plhs0 = Some (rows, nplts l), trace = evs @ [Pwvd61 l]\<rparr>)"

text \<open>An outcome with the calls \<open>ws\<close> made before it.\<close>

definition after :: "event list \<Rightarrow> outcome \<Rightarrow> outcome" where
  "after ws r = r\<lparr>trace := ws @ trace r\<rparr>"

text \<open>The whole of \<open>mexFunction\<close>.\<close>

definition mexFunction :: "host \<Rightarrow> int \<Rightarrow> MATRIX list \<Rightarrow> outcome option" where
  "mexFunction h nlhs prhs =
    (case mexFunction_args h nlhs prhs of
       None \<Rightarrow> None
     | Some (Inl evs) \<Rightarrow> Some \<lparr>plhs0 = None, trace = evs\<rparr>
     | Some (Inr (ws, l)) \<Rightarrow> Some (after ws (mexFunction_run h nlhs (prhs ! 0) l)))"

subsection \<open>Vocabulary of the statements\<close>

text \<open>
  The shape test of lines 83 to 102 as the gateway applies it, and the signal length it
  derives (line 104).
\<close>

definition accepted_shape :: "MATRIX \<Rightarrow> bool" where
  "accepted_shape a \<longleftrightarrow>
     mxIsNumeric a \<and> MXFULL a \<and>
     \<not> ((mxGetM a = 1 \<and> mxGetN a = 1) \<or> (mxGetM a \<noteq> 1 \<and> mxGetN a \<noteq> 1))"

definition sig_len :: "MATRIX \<Rightarrow> int" where
  "sig_len a = (if mxGetM a > mxGetN a then mxGetM a else mxGetN a)"

text \<open>A numeric, full, one-dimensional signal of length at least 2.\<close>

definition signal_ok :: "MATRIX \<Rightarrow> bool" where
  "signal_ok a \<longleftrightarrow>
     mxIsNumeric a \<and> MXFULL a \<and>
     ((mxGetM a = 1 \<and> 2 \<le> mxGetN a) \<or> (mxGetN a = 1 \<and> 2 \<le> mxGetM a))"

text \<open>The window length after the clamp of lines 127 to 130, and the warning raised.\<close>

definition clamped_window :: "MATRIX list \<Rightarrow> int" where
  "clamped_window prhs = min (mxGetPr0 (prhs ! 1)) (sig_len (prhs ! 0))"

definition truncation_warning :: event where
  "truncation_warning =
     TfsaWarning ''pwvd61'' ''Window length has been truncated to signal length''"

definition clamp_warning :: "MATRIX list \<Rightarrow> event list" where
  "clamp_warning prhs =
     (if mxGetPr0 (prhs ! 1) > sig_len (prhs ! 0) then [truncation_warning] else [])"

text \<open>
  The effective FFT length in the words of the specification: the window length when the
  fifth argument is absent, the request raised to the window length otherwise.
\<close>

definition effective_fft :: "MATRIX list \<Rightarrow> int" where
  "effective_fft prhs =
     (if length prhs = 5 then max (mxGetPr0 (prhs ! 4)) (clamped_window prhs)
      else clamped_window prhs)"

text \<open>
  A valid call: at most one output, four or five arguments, a signal of length at least
  2, scalars that \<open>GoodScalar\<close> accepts, a window length of at least 1, a time step
  between 1 and the signal length, and a transform length, when given, of at least 0.
\<close>

definition valid_call :: "host \<Rightarrow> int \<Rightarrow> MATRIX list \<Rightarrow> bool" where
  "valid_call h nlhs prhs \<longleftrightarrow>
     nlhs \<le> 1 \<and> (length prhs = 4 \<or> length prhs = 5) \<and> signal_ok (prhs ! 0) \<and>
     GoodScalar h (prhs ! 1) \<and> GoodScalar h (prhs ! 2) \<and> GoodScalar h (prhs ! 3) \<and>
     1 \<le> mxGetPr0 (prhs ! 1) \<and>
     1 \<le> mxGetPr0 (prhs ! 2) \<and> mxGetPr0 (prhs ! 2) \<le> sig_len (prhs ! 0) \<and>
     (length prhs = 5 \<longrightarrow> GoodScalar h (prhs ! 4) \<and> 0 \<le> mxGetPr0 (prhs ! 4))"

text \<open>The number of analysis instants: the signal length over the time step, rounded up.\<close>

definition cols :: "MATRIX list \<Rightarrow> int" where
  "cols prhs = \<lceil>real_of_int (sig_len (prhs ! 0)) / real_of_int (mxGetPr0 (prhs ! 2))\<rceil>"

text \<open>
  The outcome of an error path taken after the calls \<open>ws\<close>: the error is reported,
  \<open>plhs[0]\<close> has not been assigned.
\<close>

definition rejected :: "int \<Rightarrow> event list \<Rightarrow> string \<Rightarrow> outcome option" where
  "rejected nlhs ws msg = Some \<lparr>plhs0 = None, trace = ws @ err_return nlhs msg\<rparr>"

subsection \<open>Inputs for the examples\<close>

text \<open>
  A real, full \<open>m\<close> by \<open>n\<close> array, a real scalar of value \<open>v\<close>, and a host whose
  \<open>GoodScalar\<close> accepts the real, full, numeric 1 by 1 arrays, whose allocator succeeds
  and whose engine returns \<open>status\<close>.
\<close>

definition vector :: "int \<Rightarrow> int \<Rightarrow> MATRIX" where
  "vector m n = \<lparr>mxIsNumeric = True, MXFULL = True, mxIsComplex = False,
                  mxGetM = m, mxGetN = n, mxGetPr0 = 0\<rparr>"

definition scalar :: "int \<Rightarrow> MATRIX" where
  "scalar v = \<lparr>mxIsNumeric = True, MXFULL = True, mxIsComplex = False,
                mxGetM = 1, mxGetN = 1, mxGetPr0 = v\<rparr>"

definition host_with :: "int \<Rightarrow> host" where
  "host_with status =
     \<lparr>GoodScalar = (\<lambda>a. mxIsNumeric a \<and> MXFULL a \<and> \<not> mxIsComplex a \<and>
                          mxGetM a = 1 \<and> mxGetN a = 1),
      MXCREATEFULL = (\<lambda>r c. True),
      pwvd61 = (\<lambda>sig sl np tr wl wr2 wo dg. status)\<rparr>"

text \<open>A signal of 16 samples, window length 4, time step 2, degree 3.\<close>

definition call16 :: "MATRIX list" where
  "call16 = [vector 1 16, scalar 4, scalar 2, scalar 3]"

definition locals16 :: locals where
  "locals16 = \<lparr>signal_length = 16, window_length = 4, time_res = 2, deg = 4,
                fft_length = 4, nplts = 8, window_order = 2, window_r2 = 4\<rparr>"

text \<open>
  A host like \<open>host_with\<close> whose engine returns 0 exactly when the window length it
  receives is the signal length it receives.
\<close>

definition host_checking :: host where
  "host_checking =
     \<lparr>GoodScalar = (\<lambda>a. mxIsNumeric a \<and> MXFULL a \<and> \<not> mxIsComplex a \<and>
                          mxGetM a = 1 \<and> mxGetN a = 1),
      MXCREATEFULL = (\<lambda>r c. True),
      pwvd61 = (\<lambda>sig sl np tr wl wr2 wo dg. if wl = sl then 0 else 1)\<rparr>"

text \<open>
  A signal of 16 samples with window length 40, time step 3, degree 3 and transform
  length 100, and the local variables that parameter processing computes for it.
\<close>

definition call_wide :: "MATRIX list" where
  "call_wide = [vector 1 16, scalar 40, scalar 3, scalar 3, scalar 100]"

definition locals_wide :: locals where
  "locals_wide = \<lparr>signal_length = 16, window_length = 16, time_res = 3, deg = 4,
                   fft_length = 100, nplts = 6, window_order = 7, window_r2 = 128\<rparr>"

text \<open>
  The local variables for a signal of 16 samples with window length 1, time step 2,
  degree 3 and transform length 0.
\<close>

definition locals_one :: locals where
  "locals_one = \<lparr>signal_length = 16, window_length = 1, time_res = 2, deg = 4,
         fft_length = 1, nplts = 8, window_order = 0, window_r2 = 1\<rparr>"

section \<open>Properties\<close>

subsection \<open>Arithmetic and the loops\<close>

lemma shl1_pow: "k < 30 \<Longrightarrow> shl1 (2 ^ k) = 2 ^ Suc k"
proof -
  assume k: "k < 30"
  have "(2::int) ^ Suc k \<le> 2 ^ 30" using k by (intro power_increasing) auto
  then have "(2::int) * 2 ^ k < 2 ^ 31" by simp
  moreover have "(0::int) \<le> 2 * 2 ^ k" by simp
  ultimately show ?thesis
    by (simp add: shl1_def int32_def)
qed

lemma int32_small: "0 \<le> x \<Longrightarrow> x < 2 ^ 31 \<Longrightarrow> int32 x = x"
  by (simp add: int32_def)

lemma deg_loop_zero: "0 < d \<Longrightarrow> deg_loop 0 d = None"
proof -
  have "deg_loop a d = Some y \<Longrightarrow> \<not> (a = 0 \<and> 0 < d)" for a y
    by (rule deg_loop.raw_induct [where P = "\<lambda>a d y. \<not> (a = 0 \<and> 0 < d)"])
       (auto simp: shl1_def int32_def split: if_splits)
  then show "0 < d \<Longrightarrow> deg_loop 0 d = None"
    by (cases "deg_loop 0 d") auto
qed

lemma deg_loop_step: "a < d \<Longrightarrow> deg_loop a d = deg_loop (shl1 a) d"
  by (subst deg_loop.simps) simp

lemma deg_loop_stop: "\<not> a < d \<Longrightarrow> deg_loop a d = Some a"
  by (subst deg_loop.simps) simp

lemma deg_loop_top: assumes "2 ^ 30 < d" shows "deg_loop (2 ^ 30) d = None"
proof -
  have "deg_loop (2 ^ 30) d = deg_loop (- (2 ^ 31)) d"
    using assms by (subst deg_loop_step) (simp_all add: shl1_def int32_def)
  also have "\<dots> = deg_loop 0 d"
    using assms by (subst deg_loop_step) (simp_all add: shl1_def int32_def)
  also have "\<dots> = None" using assms by (simp add: deg_loop_zero)
  finally show ?thesis .
qed

lemma deg_loop_diverges: "n \<le> 30 \<Longrightarrow> k = 30 - n \<Longrightarrow> 2 ^ 30 < d \<Longrightarrow> deg_loop (2 ^ k) d = None"
proof (induction n arbitrary: k)
  case 0
  with deg_loop_top [of d] show ?case by simp
next
  case (Suc n)
  then have k: "k < 30" and k': "Suc k = 30 - n" by auto
  have "(2::int) ^ k \<le> 2 ^ 30" by (rule power_increasing) (use k in auto)
  then have "(2::int) ^ k < d" using Suc.prems by simp
  then have "deg_loop (2 ^ k) d = deg_loop (2 ^ Suc k) d"
    by (simp add: deg_loop_step shl1_pow k)
  also have "\<dots> = None" using Suc.IH [OF _ k'] Suc.prems by simp
  finally show ?case .
qed

lemma deg_loop_returns:
  "n \<le> 30 \<Longrightarrow> k = 30 - n \<Longrightarrow> d \<le> 2 ^ 30 \<Longrightarrow> k = 0 \<or> 2 ^ (k - 1) < d \<Longrightarrow>
   \<exists>j\<le>30. deg_loop (2 ^ k) d = Some (2 ^ j) \<and> d \<le> 2 ^ j \<and> (j = 0 \<or> 2 ^ (j - 1) < d)"
proof (induction n arbitrary: k)
  case 0
  then have "deg_loop (2 ^ k) d = Some (2 ^ k)" by (simp add: deg_loop_stop)
  with 0 show ?case by (intro exI [of _ 30]) auto
next
  case (Suc n)
  then have k: "k < 30" and k': "Suc k = 30 - n" by auto
  show ?case
  proof (cases "2 ^ k < d")
    case True
    then have "deg_loop (2 ^ k) d = deg_loop (2 ^ Suc k) d"
      by (simp add: deg_loop_step shl1_pow k)
    moreover have "\<exists>j\<le>30. deg_loop (2 ^ Suc k) d = Some (2 ^ j) \<and> d \<le> 2 ^ j \<and> (j = 0 \<or> 2 ^ (j - 1) < d)"
      using Suc.IH [OF _ k'] Suc.prems True by simp
    ultimately show ?thesis by simp
  next
    case False
    then have "deg_loop (2 ^ k) d = Some (2 ^ k)" by (simp add: deg_loop_stop)
    with False Suc.prems k show ?thesis by (intro exI [of _ k]) auto
  qed
qed

lemma radix_loop_step:
  "a < f \<Longrightarrow> radix_loop w a f = radix_loop (int32 (w + 1)) (shl1 a) f"
  by (subst radix_loop.simps) simp

lemma radix_loop_stop: "\<not> a < f \<Longrightarrow> radix_loop w a f = Some (w, a)"
  by (subst radix_loop.simps) simp

lemma radix_loop_zero: "0 < f \<Longrightarrow> radix_loop w 0 f = None"
proof -
  have "radix_loop w a f = Some y \<Longrightarrow> \<not> (a = 0 \<and> 0 < f)" for w a y
    by (rule radix_loop.raw_induct [where P = "\<lambda>w a f y. \<not> (a = 0 \<and> 0 < f)"])
       (auto simp: shl1_def int32_def split: if_splits)
  then show "0 < f \<Longrightarrow> radix_loop w 0 f = None"
    by (cases "radix_loop w 0 f") auto
qed

lemma radix_loop_top: assumes "2 ^ 30 < f" shows "radix_loop w (2 ^ 30) f = None"
proof -
  have "radix_loop w (2 ^ 30) f = radix_loop (int32 (w + 1)) (- (2 ^ 31)) f"
    using assms by (subst radix_loop_step) (simp_all add: shl1_def int32_def)
  also have "\<dots> = radix_loop (int32 (int32 (w + 1) + 1)) 0 f"
    using assms by (subst radix_loop_step) (simp_all add: shl1_def int32_def)
  also have "\<dots> = None" using assms by (simp add: radix_loop_zero)
  finally show ?thesis .
qed

lemma radix_loop_diverges:
  "n \<le> 30 \<Longrightarrow> k = 30 - n \<Longrightarrow> 2 ^ 30 < f \<Longrightarrow> radix_loop w (2 ^ k) f = None"
proof (induction n arbitrary: k w)
  case 0
  with radix_loop_top [of f w] show ?case by simp
next
  case (Suc n)
  then have k: "k < 30" and k': "Suc k = 30 - n" by auto
  have "(2::int) ^ k \<le> 2 ^ 30" by (rule power_increasing) (use k in auto)
  then have "(2::int) ^ k < f" using Suc.prems by simp
  then have "radix_loop w (2 ^ k) f = radix_loop (int32 (w + 1)) (2 ^ Suc k) f"
    by (simp add: radix_loop_step shl1_pow k)
  also have "\<dots> = None" using Suc.IH [OF _ k'] Suc.prems by simp
  finally show ?case .
qed

lemma radix_loop_returns:
  "n \<le> 30 \<Longrightarrow> k = 30 - n \<Longrightarrow> f \<le> 2 ^ 30 \<Longrightarrow> k = 0 \<or> 2 ^ (k - 1) < f \<Longrightarrow>
   \<exists>j\<le>30. radix_loop (int k) (2 ^ k) f = Some (int j, 2 ^ j) \<and> f \<le> 2 ^ j \<and>
     (j = 0 \<or> 2 ^ (j - 1) < f)"
proof (induction n arbitrary: k)
  case 0
  then have "radix_loop (int k) (2 ^ k) f = Some (int k, 2 ^ k)"
    by (simp add: radix_loop_stop)
  with 0 show ?case by (intro exI [of _ 30]) auto
next
  case (Suc n)
  then have k: "k < 30" and k': "Suc k = 30 - n" by auto
  show ?case
  proof (cases "2 ^ k < f")
    case True
    have "int32 (int k + 1) = int (Suc k)"
      using k by (simp add: int32_small)
    with True have "radix_loop (int k) (2 ^ k) f = radix_loop (int (Suc k)) (2 ^ Suc k) f"
      by (simp add: radix_loop_step shl1_pow k)
    moreover have "\<exists>j\<le>30. radix_loop (int (Suc k)) (2 ^ Suc k) f = Some (int j, 2 ^ j) \<and>
        f \<le> 2 ^ j \<and> (j = 0 \<or> 2 ^ (j - 1) < f)"
      using Suc.IH [OF _ k'] Suc.prems True by simp
    ultimately show ?thesis by simp
  next
    case False
    then have "radix_loop (int k) (2 ^ k) f = Some (int k, 2 ^ k)"
      by (simp add: radix_loop_stop)
    with False Suc.prems k show ?thesis by (intro exI [of _ k]) auto
  qed
qed

lemma deg_loop_from_one:
  "d \<le> 2 ^ 30 \<Longrightarrow>
   \<exists>j\<le>30. deg_loop 1 d = Some (2 ^ j) \<and> d \<le> 2 ^ j \<and> (j = 0 \<or> 2 ^ (j - 1) < d)"
  using deg_loop_returns [of 30 0 d] by simp

lemma radix_loop_from_one:
  "f \<le> 2 ^ 30 \<Longrightarrow>
   \<exists>j\<le>30. radix_loop 0 1 f = Some (int j, 2 ^ j) \<and> f \<le> 2 ^ j \<and> (j = 0 \<or> 2 ^ (j - 1) < f)"
  using radix_loop_returns [of 30 0 f] by simp

lemma deg_loop_one_diverges: "2 ^ 30 < d \<Longrightarrow> deg_loop 1 d = None"
  using deg_loop_diverges [of 30 0 d] by simp

lemma radix_loop_one_diverges: "2 ^ 30 < f \<Longrightarrow> radix_loop 0 1 f = None"
  using radix_loop_diverges [of 30 0 f 0] by simp

lemma c_int_of_int: "c_int (of_int n) = n"
  by (simp add: c_int_def)

lemma c_int_c_ceil: "c_int (c_ceil r) = \<lceil>r\<rceil>"
  by (simp add: c_ceil_def c_int_of_int)

lemma c_int_half: "0 \<le> x \<Longrightarrow> c_int (real_of_int x * 0.5) = x div 2"
proof -
  assume "0 \<le> x"
  have "real_of_int x * 0.5 = real_of_int x / real_of_int 2" by simp
  then have "\<lfloor>real_of_int x * 0.5\<rfloor> = x div 2"
    by (simp only: floor_divide_of_int_eq)
  with \<open>0 \<le> x\<close> show ?thesis by (simp add: c_int_def)
qed

subsection \<open>A valid call in range\<close>

lemma signal_ok_accepted: "signal_ok a \<Longrightarrow> accepted_shape a"
  by (auto simp: signal_ok_def accepted_shape_def)

lemma args_valid_eq:
  assumes v: "valid_call h nlhs prhs"
  shows "mexFunction_args h nlhs prhs =
    (case deg_loop 1 (mxGetPr0 (prhs ! 3)) of
       None \<Rightarrow> None
     | Some dg \<Rightarrow>
        (case radix_loop 0 1 (effective_fft prhs) of
           None \<Rightarrow> None
         | Some (wo, wr2) \<Rightarrow>
            Some (Inr (clamp_warning prhs,
              \<lparr>signal_length = sig_len (prhs ! 0), window_length = clamped_window prhs,
               time_res = mxGetPr0 (prhs ! 2), deg = dg, fft_length = effective_fft prhs,
               nplts = \<lceil>real_of_int (sig_len (prhs ! 0)) /
                         real_of_int (mxGetPr0 (prhs ! 2))\<rceil>,
               window_order = wo, window_r2 = wr2\<rparr>))))"
proof -
  let ?a = "prhs ! 0"
  from v have ar: "\<not> int (length prhs) < 4" "\<not> 5 < int (length prhs)" "\<not> 1 < nlhs"
    by (auto simp: valid_call_def)
  from v have nm: "mxIsNumeric ?a" "MXFULL ?a"
    and sh: "\<not> ((mxGetM ?a = 1 \<and> mxGetN ?a = 1) \<or> (mxGetM ?a \<noteq> 1 \<and> mxGetN ?a \<noteq> 1))"
    by (auto simp: valid_call_def signal_ok_def)
  from v have gs: "GoodScalar h (prhs ! 1)" "GoodScalar h (prhs ! 2)" "GoodScalar h (prhs ! 3)"
    and rg: "\<not> mxGetPr0 (prhs ! 1) < 1" "\<not> mxGetPr0 (prhs ! 2) < 1"
      "\<not> sig_len ?a < mxGetPr0 (prhs ! 2)"
    by (auto simp: valid_call_def)
  have sl: "(if mxGetN ?a < mxGetM ?a then mxGetM ?a else mxGetN ?a) = sig_len ?a"
    by (simp add: sig_len_def)
  have wl: "(if sig_len ?a < mxGetPr0 (prhs ! 1) then sig_len ?a else mxGetPr0 (prhs ! 1))
      = clamped_window prhs"
    by (simp add: clamped_window_def min_def)
  have ws: "(if sig_len ?a < mxGetPr0 (prhs ! 1)
      then [TfsaWarning ''pwvd61'' ''Window length has been truncated to signal length'']
      else []) = clamp_warning prhs"
    by (simp add: clamp_warning_def truncation_warning_def)
  from v have g5: "\<not> (int (length prhs) = 5 \<and> \<not> GoodScalar h (prhs ! 4))"
    by (auto simp: valid_call_def)
  let ?f0 = "if int (length prhs) = 5 then mxGetPr0 (prhs ! 4) else clamped_window prhs"
  from v have f0: "\<not> ?f0 < 0"
    by (auto simp: valid_call_def clamped_window_def sig_len_def signal_ok_def)
  have fl: "(if ?f0 < clamped_window prhs then clamped_window prhs else ?f0)
      = effective_fft prhs"
    by (simp add: effective_fft_def max_def)
  show ?thesis
    unfolding mexFunction_args_def Let_def
    by (simp only: ar nm sh gs rg sl wl ws g5 f0 fl c_int_c_ceil
        if_False if_True simp_thms)
qed

lemma args_valid:
  assumes v: "valid_call h nlhs prhs"
    and d: "mxGetPr0 (prhs ! 3) \<le> 2 ^ 30"
    and f: "effective_fft prhs \<le> 2 ^ 30"
  shows "\<exists>i\<le>30. \<exists>j\<le>30.
     mexFunction_args h nlhs prhs =
       Some (Inr (clamp_warning prhs,
         \<lparr>signal_length = sig_len (prhs ! 0), window_length = clamped_window prhs,
          time_res = mxGetPr0 (prhs ! 2), deg = 2 ^ i, fft_length = effective_fft prhs,
          nplts = \<lceil>real_of_int (sig_len (prhs ! 0)) / real_of_int (mxGetPr0 (prhs ! 2))\<rceil>,
          window_order = int j, window_r2 = 2 ^ j\<rparr>)) \<and>
     mxGetPr0 (prhs ! 3) \<le> 2 ^ i \<and> (i = 0 \<or> 2 ^ (i - 1) < mxGetPr0 (prhs ! 3)) \<and>
     effective_fft prhs \<le> 2 ^ j \<and> (j = 0 \<or> 2 ^ (j - 1) < effective_fft prhs)"
proof -
  from deg_loop_from_one [OF d] obtain i where i: "i \<le> 30"
    "deg_loop 1 (mxGetPr0 (prhs ! 3)) = Some (2 ^ i)"
    "mxGetPr0 (prhs ! 3) \<le> 2 ^ i" "i = 0 \<or> 2 ^ (i - 1) < mxGetPr0 (prhs ! 3)"
    by blast
  from radix_loop_from_one [OF f] obtain j where j: "j \<le> 30"
    "radix_loop 0 1 (effective_fft prhs) = Some (int j, 2 ^ j)"
    "effective_fft prhs \<le> 2 ^ j" "j = 0 \<or> 2 ^ (j - 1) < effective_fft prhs"
    by blast
  have "mexFunction_args h nlhs prhs =
       Some (Inr (clamp_warning prhs,
         \<lparr>signal_length = sig_len (prhs ! 0), window_length = clamped_window prhs,
          time_res = mxGetPr0 (prhs ! 2), deg = 2 ^ i, fft_length = effective_fft prhs,
          nplts = \<lceil>real_of_int (sig_len (prhs ! 0)) / real_of_int (mxGetPr0 (prhs ! 2))\<rceil>,
          window_order = int j, window_r2 = 2 ^ j\<rparr>))"
    by (simp add: args_valid_eq [OF v] i(2) j(2))
  with i j show ?thesis by blast
qed

subsection \<open>Allocation and the engine call\<close>

lemma c_int_half2: "0 \<le> x \<Longrightarrow> c_int (real_of_int x / 2) = x div 2"
  using c_int_half [of x] by simp

lemma run_trace_create:
  "0 \<le> window_r2 l \<Longrightarrow>
   MxCreateFull (window_r2 l div 2) (nplts l) \<in> set (trace (mexFunction_run h nlhs sig l))"
  by (simp add: mexFunction_run_def Let_def c_int_half2)

lemma run_plhs0:
  "0 \<le> window_r2 l \<Longrightarrow> MXCREATEFULL h (window_r2 l div 2) (nplts l) \<Longrightarrow>
   plhs0 (mexFunction_run h nlhs sig l) = Some (window_r2 l div 2, nplts l)"
  by (simp add: mexFunction_run_def Let_def c_int_half2)


lemma run_explicit:
  assumes "0 \<le> window_r2 l"
  shows "mexFunction_run h nlhs sig l =
    (if \<not> MXCREATEFULL h (window_r2 l div 2) (nplts l)
     then \<lparr>plhs0 = None,
           trace = MxCreateFull (window_r2 l div 2) (nplts l) #
             err_return nlhs ''Memory allocation failed''\<rparr>
     else \<lparr>plhs0 = Some (window_r2 l div 2, nplts l),
           trace = [MxCreateFull (window_r2 l div 2) (nplts l), Pwvd61 l] @
             (if pwvd61 h sig (signal_length l) (nplts l) (time_res l) (window_length l)
                   (window_r2 l) (window_order l) (deg l) \<noteq> 0
              then err_return nlhs ''Function failed'' else [])\<rparr>)"
  using assms
  by (simp add: mexFunction_run_def Let_def c_int_half2 call_pwvd61_def)

subsection \<open>Rejected calls\<close>

lemma rejected_window:
  assumes "4 \<le> length prhs" "length prhs \<le> 5" "nlhs \<le> 1" "accepted_shape (prhs ! 0)"
    "GoodScalar h (prhs ! 1)" "mxGetPr0 (prhs ! 1) < 1"
  shows "mexFunction_args h nlhs prhs =
     Some (Inl (err_return nlhs ''Window length must be greater than zero''))"
proof -
  let ?a = "prhs ! 0"
  from assms have ar: "\<not> int (length prhs) < 4" "\<not> 5 < int (length prhs)" "\<not> 1 < nlhs"
    by auto
  from assms have nm: "mxIsNumeric ?a" "MXFULL ?a"
    and sh: "\<not> ((mxGetM ?a = 1 \<and> mxGetN ?a = 1) \<or> (mxGetM ?a \<noteq> 1 \<and> mxGetN ?a \<noteq> 1))"
    by (auto simp: accepted_shape_def)
  show ?thesis
    unfolding mexFunction_args_def Let_def
    by (simp only: ar nm sh assms if_False if_True simp_thms)
qed

lemma rejected_time:
  assumes "4 \<le> length prhs" "length prhs \<le> 5" "nlhs \<le> 1" "accepted_shape (prhs ! 0)"
    "GoodScalar h (prhs ! 1)" "1 \<le> mxGetPr0 (prhs ! 1)" "GoodScalar h (prhs ! 2)"
  shows "mxGetPr0 (prhs ! 2) < 1 \<Longrightarrow> mexFunction_args h nlhs prhs =
     Some (Inl (clamp_warning prhs @
       err_return nlhs ''Time resolution must be greater than zero''))"
    and "1 \<le> mxGetPr0 (prhs ! 2) \<Longrightarrow> sig_len (prhs ! 0) < mxGetPr0 (prhs ! 2) \<Longrightarrow>
     mexFunction_args h nlhs prhs =
     Some (Inl (clamp_warning prhs @
       err_return nlhs ''Time resolution must be no greater than signal length''))"
proof -
  let ?a = "prhs ! 0"
  from assms have ar: "\<not> int (length prhs) < 4" "\<not> 5 < int (length prhs)" "\<not> 1 < nlhs"
    by auto
  from assms have nm: "mxIsNumeric ?a" "MXFULL ?a"
    and sh: "\<not> ((mxGetM ?a = 1 \<and> mxGetN ?a = 1) \<or> (mxGetM ?a \<noteq> 1 \<and> mxGetN ?a \<noteq> 1))"
    by (auto simp: accepted_shape_def)
  from assms have w: "\<not> mxGetPr0 (prhs ! 1) < 1" by simp
  have sl: "(if mxGetN ?a < mxGetM ?a then mxGetM ?a else mxGetN ?a) = sig_len ?a"
    by (simp add: sig_len_def)
  have ws: "(if sig_len ?a < mxGetPr0 (prhs ! 1)
      then [TfsaWarning ''pwvd61'' ''Window length has been truncated to signal length'']
      else []) = clamp_warning prhs"
    by (simp add: clamp_warning_def truncation_warning_def)
  show "mexFunction_args h nlhs prhs =
     Some (Inl (clamp_warning prhs @
       err_return nlhs ''Time resolution must be greater than zero''))"
    if "mxGetPr0 (prhs ! 2) < 1"
    unfolding mexFunction_args_def Let_def
    by (simp only: ar nm sh assms w sl ws that if_False if_True simp_thms)
  show "mexFunction_args h nlhs prhs =
     Some (Inl (clamp_warning prhs @
       err_return nlhs ''Time resolution must be no greater than signal length''))"
    if "1 \<le> mxGetPr0 (prhs ! 2)" "sig_len (prhs ! 0) < mxGetPr0 (prhs ! 2)"
  proof -
    from that have t: "\<not> mxGetPr0 (prhs ! 2) < 1" by simp
    show ?thesis
      unfolding mexFunction_args_def Let_def
      by (simp only: ar nm sh assms w sl ws that t if_False if_True simp_thms)
  qed
qed

lemma rejected_fft:
  assumes "length prhs = 5" "nlhs \<le> 1" "accepted_shape (prhs ! 0)"
    "GoodScalar h (prhs ! 1)" "1 \<le> mxGetPr0 (prhs ! 1)" "GoodScalar h (prhs ! 2)"
    "1 \<le> mxGetPr0 (prhs ! 2)" "mxGetPr0 (prhs ! 2) \<le> sig_len (prhs ! 0)"
    "GoodScalar h (prhs ! 3)" "mxGetPr0 (prhs ! 3) \<le> 2 ^ 30"
    "GoodScalar h (prhs ! 4)" "mxGetPr0 (prhs ! 4) < 0"
  shows "mexFunction_args h nlhs prhs =
     Some (Inl (clamp_warning prhs @
       err_return nlhs ''FFT length must be greater than zero''))"
proof -
  let ?a = "prhs ! 0"
  from assms have ar: "\<not> int (length prhs) < 4" "\<not> 5 < int (length prhs)" "\<not> 1 < nlhs"
    "int (length prhs) = 5"
    by auto
  from assms have nm: "mxIsNumeric ?a" "MXFULL ?a"
    and sh: "\<not> ((mxGetM ?a = 1 \<and> mxGetN ?a = 1) \<or> (mxGetM ?a \<noteq> 1 \<and> mxGetN ?a \<noteq> 1))"
    by (auto simp: accepted_shape_def)
  from assms have w: "\<not> mxGetPr0 (prhs ! 1) < 1" "\<not> mxGetPr0 (prhs ! 2) < 1"
    "\<not> sig_len ?a < mxGetPr0 (prhs ! 2)" by simp_all
  have sl: "(if mxGetN ?a < mxGetM ?a then mxGetM ?a else mxGetN ?a) = sig_len ?a"
    by (simp add: sig_len_def)
  have ws: "(if sig_len ?a < mxGetPr0 (prhs ! 1)
      then [TfsaWarning ''pwvd61'' ''Window length has been truncated to signal length'']
      else []) = clamp_warning prhs"
    by (simp add: clamp_warning_def truncation_warning_def)
  from deg_loop_from_one [OF assms(10)] obtain i where
    i: "deg_loop 1 (mxGetPr0 (prhs ! 3)) = Some (2 ^ i)" by blast
  show ?thesis
    unfolding mexFunction_args_def Let_def
    by (simp only: ar nm sh assms(2-) w sl ws i option.case if_False if_True simp_thms)
      simp
qed

lemma shape_rejected:
  assumes "4 \<le> length prhs" "length prhs \<le> 5" "nlhs \<le> 1"
    and "\<not> mxIsNumeric (prhs ! 0) \<or> \<not> MXFULL (prhs ! 0) \<or>
      (mxGetM (prhs ! 0) = 1 \<and> mxGetN (prhs ! 0) = 1) \<or>
      (mxGetM (prhs ! 0) \<noteq> 1 \<and> mxGetN (prhs ! 0) \<noteq> 1)"
  shows "mexFunction h nlhs prhs = rejected nlhs [] ''Input must be a vector''"
  using assms
  by (auto simp: mexFunction_def mexFunction_args_def rejected_def Let_def)

subsection \<open>The example call\<close>

lemmas loop_eval = deg_loop_step deg_loop_stop radix_loop_step radix_loop_stop
  shl1_def int32_def

lemmas example_defs = host_with_def vector_def scalar_def

lemmas example_defs2 = example_defs host_checking_def

lemma valid_call16: "valid_call (host_with s) 1 call16"
  by (simp add: valid_call_def call16_def example_defs signal_ok_def sig_len_def)

lemma args_call16: "mexFunction_args (host_with s) 1 call16 = Some (Inr ([], locals16))"
  by (simp add: mexFunction_args_def call16_def example_defs locals16_def Let_def
      loop_eval c_int_c_ceil)

lemmas vocab_eval = valid_call_def signal_ok_def accepted_shape_def sig_len_def
  clamped_window_def clamp_warning_def effective_fft_def cols_def

section \<open>The claims\<close>

subsection \<open>C1: the shape of the output matrix\<close>

text \<open>
  C1, as amended. For every valid call whose requested degree and whose effective FFT
  length are at most \<open>2 ^ 30\<close>, the gateway returns, and it asks the allocator for a
  matrix of \<open>2 ^ j div 2\<close> rows and \<open>cols\<close> columns, where \<open>2 ^ j\<close> is the smallest
  power of two that is at least the effective FFT length and \<open>cols\<close> is the signal
  length over the time step, rounded up; when the allocator succeeds, \<open>plhs[0]\<close> is a
  matrix of exactly these dimensions.
\<close>

theorem output_shape:
  assumes "valid_call h nlhs prhs"
    and "mxGetPr0 (prhs ! 3) \<le> 2 ^ 30"
    and "effective_fft prhs \<le> 2 ^ 30"
  shows "\<exists>r. \<exists>j\<le>30. mexFunction h nlhs prhs = Some r \<and>
     effective_fft prhs \<le> 2 ^ j \<and> (j = 0 \<or> 2 ^ (j - 1) < effective_fft prhs) \<and>
     MxCreateFull (2 ^ j div 2) (cols prhs) \<in> set (trace r) \<and>
     (MXCREATEFULL h (2 ^ j div 2) (cols prhs) \<longrightarrow>
        plhs0 r = Some (2 ^ j div 2, cols prhs))"
proof -
  from args_valid [OF assms] obtain i j l where j: "j \<le> 30"
    and l: "l = \<lparr>signal_length = sig_len (prhs ! 0), window_length = clamped_window prhs,
          time_res = mxGetPr0 (prhs ! 2), deg = 2 ^ i, fft_length = effective_fft prhs,
          nplts = cols prhs, window_order = int j, window_r2 = 2 ^ j\<rparr>"
    and a: "mexFunction_args h nlhs prhs = Some (Inr (clamp_warning prhs, l))"
    and f: "effective_fft prhs \<le> 2 ^ j" "j = 0 \<or> 2 ^ (j - 1) < effective_fft prhs"
    unfolding cols_def by blast
  let ?r = "after (clamp_warning prhs) (mexFunction_run h nlhs (prhs ! 0) l)"
  have w: "(0::int) \<le> window_r2 l" "window_r2 l = 2 ^ j" "nplts l = cols prhs"
    by (simp_all add: l)
  have r: "mexFunction h nlhs prhs = Some ?r"
    by (simp add: mexFunction_def a)
  have c: "MxCreateFull (2 ^ j div 2) (cols prhs) \<in> set (trace ?r)"
    using run_trace_create [OF w(1), of h nlhs "prhs ! 0"] by (simp add: after_def w)
  have p: "MXCREATEFULL h (2 ^ j div 2) (cols prhs) \<longrightarrow>
      plhs0 ?r = Some (2 ^ j div 2, cols prhs)"
    using run_plhs0 [OF w(1), of h nlhs "prhs ! 0"] by (simp add: after_def w)
  from r j f c p show ?thesis by blast
qed


theorem output_shape_witness:
  "valid_call (host_with 0) 1 call16 \<and> mxGetPr0 (call16 ! 3) \<le> 2 ^ 30 \<and>
   effective_fft call16 \<le> 2 ^ 30 \<and>
   (\<exists>r. \<exists>j\<le>30. mexFunction (host_with 0) 1 call16 = Some r \<and>
     effective_fft call16 \<le> 2 ^ j \<and> (j = 0 \<or> 2 ^ (j - 1) < effective_fft call16) \<and>
     MxCreateFull (2 ^ j div 2) (cols call16) \<in> set (trace r) \<and>
     (MXCREATEFULL (host_with 0) (2 ^ j div 2) (cols call16) \<longrightarrow>
        plhs0 r = Some (2 ^ j div 2, cols call16)))"
proof -
  have v: "valid_call (host_with 0) 1 call16" by (rule valid_call16)
  have d: "mxGetPr0 (call16 ! 3) \<le> 2 ^ 30"
    by (simp add: call16_def example_defs)
  have f: "effective_fft call16 \<le> 2 ^ 30"
    by (simp add: call16_def example_defs vocab_eval)
  from v d f output_shape [OF v d f] show ?thesis by blast
qed


text \<open>
  Without the bound the statement fails, at a valid call with the transform length
  \<open>2 ^ 30 + 1\<close>: the loop of lines 213 to 217 passes \<open>2 ^ 30\<close>, wraps to \<open>- 2 ^ 31\<close>
  and then to 0, where it stays; no matrix is allocated.
\<close>

theorem output_shape_counterexample:
  "valid_call (host_with 0) 1
     [vector 1 16, scalar 4, scalar 2, scalar 2, scalar (2 ^ 30 + 1)] \<and>
   mexFunction (host_with 0) 1
     [vector 1 16, scalar 4, scalar 2, scalar 2, scalar (2 ^ 30 + 1)] = None"
proof -
  let ?c = "[vector 1 16, scalar 4, scalar 2, scalar 2, scalar (2 ^ 30 + 1)]"
  have v: "valid_call (host_with 0) 1 ?c"
    by (simp add: example_defs vocab_eval)
  have f: "effective_fft ?c = 2 ^ 30 + 1"
    by (simp add: example_defs vocab_eval)
  have "radix_loop 0 1 (effective_fft ?c) = None"
    unfolding f by (rule radix_loop_one_diverges) simp
  then have "mexFunction_args (host_with 0) 1 ?c = None"
    unfolding args_valid_eq [OF v] by (simp split: option.split)
  then have "mexFunction (host_with 0) 1 ?c = None"
    by (simp add: mexFunction_def)
  with v show ?thesis by blast
qed

subsection \<open>C2: the radix-2 length\<close>

text \<open>
  C2, as amended. For every valid call whose requested degree and whose effective FFT
  length are at most \<open>2 ^ 30\<close>, parameter processing returns local variables in which
  \<open>window_r2\<close> is a power of two \<open>2 ^ j\<close> with \<open>window_order = j\<close>, the window length
  is the clamped one, the FFT length is the effective one (the window length when the
  fifth argument is absent, the request raised to the window length otherwise), and
  \<open>window_r2\<close> is at least the window length, the requested transform length and the
  FFT length, and is the smallest such power of two.
\<close>

theorem radix_length_pow2:
  assumes "valid_call h nlhs prhs"
    and "mxGetPr0 (prhs ! 3) \<le> 2 ^ 30"
    and "effective_fft prhs \<le> 2 ^ 30"
  shows "\<exists>ws l. \<exists>j\<le>30. mexFunction_args h nlhs prhs = Some (Inr (ws, l)) \<and>
     window_r2 l = 2 ^ j \<and> window_order l = int j \<and>
     window_length l = clamped_window prhs \<and> fft_length l = effective_fft prhs \<and>
     window_length l \<le> window_r2 l \<and>
     (length prhs = 5 \<longrightarrow> mxGetPr0 (prhs ! 4) \<le> window_r2 l) \<and>
     fft_length l \<le> window_r2 l \<and> (j = 0 \<or> 2 ^ (j - 1) < fft_length l)"
proof -
  from args_valid [OF assms] obtain i j l where j: "j \<le> 30"
    and l: "l = \<lparr>signal_length = sig_len (prhs ! 0), window_length = clamped_window prhs,
          time_res = mxGetPr0 (prhs ! 2), deg = 2 ^ i, fft_length = effective_fft prhs,
          nplts = cols prhs, window_order = int j, window_r2 = 2 ^ j\<rparr>"
    and a: "mexFunction_args h nlhs prhs = Some (Inr (clamp_warning prhs, l))"
    and f: "effective_fft prhs \<le> 2 ^ j" "j = 0 \<or> 2 ^ (j - 1) < effective_fft prhs"
    unfolding cols_def by blast
  have 1: "clamped_window prhs \<le> effective_fft prhs"
    by (simp add: effective_fft_def)
  have 2: "length prhs = 5 \<longrightarrow> mxGetPr0 (prhs ! 4) \<le> effective_fft prhs"
    by (simp add: effective_fft_def)
  have "window_r2 l = 2 ^ j \<and> window_order l = int j \<and>
     window_length l = clamped_window prhs \<and> fft_length l = effective_fft prhs \<and>
     window_length l \<le> window_r2 l \<and>
     (length prhs = 5 \<longrightarrow> mxGetPr0 (prhs ! 4) \<le> window_r2 l) \<and>
     fft_length l \<le> window_r2 l \<and> (j = 0 \<or> 2 ^ (j - 1) < fft_length l)"
    using f 1 2 by (auto simp: l)
  with a j show ?thesis by blast
qed


theorem radix_length_pow2_witness:
  "valid_call (host_with 0) 1 call16 \<and> mxGetPr0 (call16 ! 3) \<le> 2 ^ 30 \<and>
   effective_fft call16 \<le> 2 ^ 30 \<and>
   (\<exists>ws l. \<exists>j\<le>30. mexFunction_args (host_with 0) 1 call16 = Some (Inr (ws, l)) \<and>
     window_r2 l = 2 ^ j \<and> window_order l = int j \<and>
     window_length l = clamped_window call16 \<and> fft_length l = effective_fft call16 \<and>
     window_length l \<le> window_r2 l \<and>
     (length call16 = 5 \<longrightarrow> mxGetPr0 (call16 ! 4) \<le> window_r2 l) \<and>
     fft_length l \<le> window_r2 l \<and> (j = 0 \<or> 2 ^ (j - 1) < fft_length l))"
proof -
  have v: "valid_call (host_with 0) 1 call16" by (rule valid_call16)
  have d: "mxGetPr0 (call16 ! 3) \<le> 2 ^ 30"
    by (simp add: call16_def example_defs)
  have f: "effective_fft call16 \<le> 2 ^ 30"
    by (simp add: call16_def example_defs vocab_eval)
  from v d f radix_length_pow2 [OF v d f] show ?thesis by blast
qed


text \<open>
  Without the bound the statement fails, at a valid call with the transform length
  \<open>2 ^ 31 - 1\<close>: the call passes every check, and no radix-2 length is computed.
\<close>

theorem radix_length_counterexample:
  "valid_call (host_with 0) 1
     [vector 1 16, scalar 4, scalar 2, scalar 2, scalar (2 ^ 31 - 1)] \<and>
   mexFunction_args (host_with 0) 1
     [vector 1 16, scalar 4, scalar 2, scalar 2, scalar (2 ^ 31 - 1)] = None"
proof -
  let ?c = "[vector 1 16, scalar 4, scalar 2, scalar 2, scalar (2 ^ 31 - 1)]"
  have v: "valid_call (host_with 0) 1 ?c"
    by (simp add: example_defs vocab_eval)
  have f: "effective_fft ?c = 2 ^ 31 - 1"
    by (simp add: example_defs vocab_eval)
  have "radix_loop 0 1 (effective_fft ?c) = None"
    unfolding f by (rule radix_loop_one_diverges) simp
  then have "mexFunction_args (host_with 0) 1 ?c = None"
    unfolding args_valid_eq [OF v] by (simp split: option.split)
  with v show ?thesis by blast
qed

subsection \<open>C3: the interpolation degree\<close>

text \<open>
  C3, as amended. For every requested degree of at most \<open>2 ^ 30\<close> (the negative ones
  included) the loop of lines 167 to 169 returns a power of two \<open>2 ^ i\<close> with
  \<open>i \<le> 30\<close>, hence at least 1, that is at least the request and is the first value
  of the doubling from 1 to reach it. The requests 0, 1, 2, 3, 4, 5 give 1, 1, 2, 4, 4, 8.
  Whenever parameter processing succeeds, the degree it hands on is the value the loop
  returned for the fourth argument.
\<close>

theorem deg_normalized:
  "(d \<le> 2 ^ 30 \<longrightarrow>
      (\<exists>i\<le>30. deg_loop 1 d = Some (2 ^ i) \<and> d \<le> 2 ^ i \<and> (i = 0 \<or> 2 ^ (i - 1) < d))) \<and>
   deg_loop 1 0 = Some 1 \<and> deg_loop 1 1 = Some 1 \<and> deg_loop 1 2 = Some 2 \<and>
   deg_loop 1 3 = Some 4 \<and> deg_loop 1 4 = Some 4 \<and> deg_loop 1 5 = Some 8 \<and>
   (mexFunction_args h nlhs prhs = Some (Inr (ws, l)) \<longrightarrow>
      deg_loop 1 (mxGetPr0 (prhs ! 3)) = Some (deg l))"
proof (intro conjI impI)
  assume "d \<le> 2 ^ 30"
  then show "\<exists>i\<le>30. deg_loop 1 d = Some (2 ^ i) \<and> d \<le> 2 ^ i \<and> (i = 0 \<or> 2 ^ (i - 1) < d)"
    by (rule deg_loop_from_one)
next
  assume "mexFunction_args h nlhs prhs = Some (Inr (ws, l))"
  then show "deg_loop 1 (mxGetPr0 (prhs ! 3)) = Some (deg l)"
    by (auto simp: mexFunction_args_def Let_def split: if_splits option.splits)
qed (simp_all add: deg_loop_step deg_loop_stop shl1_def int32_def)

theorem deg_normalized_witness:
  "(3::int) \<le> 2 ^ 30 \<and>
   (\<exists>i\<le>30. deg_loop 1 3 = Some (2 ^ i) \<and> (3::int) \<le> 2 ^ i \<and>
      (i = 0 \<or> (2::int) ^ (i - 1) < 3)) \<and>
   mexFunction_args (host_with 0) 1 call16 = Some (Inr ([], locals16)) \<and>
   deg_loop 1 (mxGetPr0 (call16 ! 3)) = Some (deg locals16)"
proof -
  note t = deg_normalized [of 3 "host_with 0" 1 call16 "[]" locals16]
  have h: "(3::int) \<le> 2 ^ 30" by simp
  have a: "mexFunction_args (host_with 0) 1 call16 = Some (Inr ([], locals16))"
    by (rule args_call16)
  from t h have 1: "\<exists>i\<le>30. deg_loop 1 3 = Some (2 ^ i) \<and> (3::int) \<le> 2 ^ i \<and>
      (i = 0 \<or> (2::int) ^ (i - 1) < 3)"
    by blast
  from t a have 2: "deg_loop 1 (mxGetPr0 (call16 ! 3)) = Some (deg locals16)"
    by blast
  from h 1 a 2 show ?thesis by blast
qed

text \<open>
  Without the bound the statement fails, at the request \<open>2 ^ 30 + 1\<close>, a non-negative value
  of an \<open>int\<close>: the doubling passes \<open>2 ^ 30\<close>, wraps to \<open>- 2 ^ 31\<close> and then to 0,
  where it stays, so the loop does not return and neither does the gateway.
\<close>

theorem deg_overflow_counterexample:
  "deg_loop 1 (2 ^ 30 + 1) = None \<and>
   mexFunction (host_with 0) 1 [vector 1 16, scalar 4, scalar 2, scalar (2 ^ 30 + 1)] = None"
proof -
  have d: "deg_loop 1 (2 ^ 30 + 1) = None"
    by (rule deg_loop_one_diverges) simp
  then have "deg_loop 1 1073741825 = None" by simp
  then have "mexFunction_args (host_with 0) 1
      [vector 1 16, scalar 4, scalar 2, scalar (2 ^ 30 + 1)] = None"
    by (simp add: mexFunction_args_def example_defs Let_def)
  then show ?thesis using d by (simp add: mexFunction_def)
qed

subsection \<open>C4: a window longer than the signal\<close>

text \<open>
  C4, as amended. In a valid call whose window length exceeds the signal length no check
  rejects the call. When moreover the requested degree and the effective FFT length are
  at most \<open>2 ^ 30\<close>, the gateway returns: the truncation warning is the first call it
  makes, the window length among the local variables is the signal length, the matrix is
  requested from the allocator, and when the allocator succeeds the engine is called with
  the signal length as its window length argument; the only errors that can follow are
  those of the allocator and of the engine.
\<close>

theorem window_clamped:
  assumes v: "valid_call h nlhs prhs"
    and w: "sig_len (prhs ! 0) < mxGetPr0 (prhs ! 1)"
  shows "(\<forall>evs. mexFunction_args h nlhs prhs \<noteq> Some (Inl evs)) \<and>
    (mxGetPr0 (prhs ! 3) \<le> 2 ^ 30 \<and> effective_fft prhs \<le> 2 ^ 30 \<longrightarrow>
      (\<exists>i\<le>30. \<exists>j\<le>30. \<exists>l r.
         l = \<lparr>signal_length = sig_len (prhs ! 0), window_length = sig_len (prhs ! 0),
              time_res = mxGetPr0 (prhs ! 2), deg = 2 ^ i,
              fft_length = effective_fft prhs, nplts = cols prhs,
              window_order = int j, window_r2 = 2 ^ j\<rparr> \<and>
         mexFunction_args h nlhs prhs = Some (Inr ([truncation_warning], l)) \<and>
         mexFunction h nlhs prhs = Some r \<and>
         (\<not> MXCREATEFULL h (2 ^ j div 2) (cols prhs) \<longrightarrow>
            r = \<lparr>plhs0 = None,
                 trace = [truncation_warning, MxCreateFull (2 ^ j div 2) (cols prhs)] @
                   err_return nlhs ''Memory allocation failed''\<rparr>) \<and>
         (MXCREATEFULL h (2 ^ j div 2) (cols prhs) \<longrightarrow>
            r = \<lparr>plhs0 = Some (2 ^ j div 2, cols prhs),
                 trace = [truncation_warning, MxCreateFull (2 ^ j div 2) (cols prhs),
                          Pwvd61 l] @
                   (if pwvd61 h (prhs ! 0) (sig_len (prhs ! 0)) (cols prhs)
                         (mxGetPr0 (prhs ! 2)) (sig_len (prhs ! 0)) (2 ^ j) (int j) (2 ^ i)
                       \<noteq> 0
                    then err_return nlhs ''Function failed'' else [])\<rparr>)))"
proof (intro conjI allI impI)
  fix evs
  show "mexFunction_args h nlhs prhs \<noteq> Some (Inl evs)"
    by (simp add: args_valid_eq [OF v] split: option.split)
next
  assume r: "mxGetPr0 (prhs ! 3) \<le> 2 ^ 30 \<and> effective_fft prhs \<le> 2 ^ 30"
  from w have cw: "clamp_warning prhs = [truncation_warning]"
    "clamped_window prhs = sig_len (prhs ! 0)"
    by (simp_all add: clamp_warning_def truncation_warning_def clamped_window_def)
  from r args_valid [OF v] obtain i j where ij: "i \<le> 30" "j \<le> 30" and
    a: "mexFunction_args h nlhs prhs =
       Some (Inr (clamp_warning prhs,
         \<lparr>signal_length = sig_len (prhs ! 0), window_length = clamped_window prhs,
          time_res = mxGetPr0 (prhs ! 2), deg = 2 ^ i, fft_length = effective_fft prhs,
          nplts = \<lceil>real_of_int (sig_len (prhs ! 0)) / real_of_int (mxGetPr0 (prhs ! 2))\<rceil>,
          window_order = int j, window_r2 = 2 ^ j\<rparr>))"
    by blast
  let ?l = "\<lparr>signal_length = sig_len (prhs ! 0), window_length = sig_len (prhs ! 0),
              time_res = mxGetPr0 (prhs ! 2), deg = 2 ^ i,
              fft_length = effective_fft prhs, nplts = cols prhs,
              window_order = int j, window_r2 = 2 ^ j\<rparr>"
  let ?r = "after [truncation_warning] (mexFunction_run h nlhs (prhs ! 0) ?l)"
  have a': "mexFunction_args h nlhs prhs = Some (Inr ([truncation_warning], ?l))"
    using a by (simp add: cw cols_def)
  have m: "mexFunction h nlhs prhs = Some ?r"
    by (simp add: mexFunction_def a')
  have p: "(0::int) \<le> window_r2 ?l" by simp
  have n: "\<not> MXCREATEFULL h (2 ^ j div 2) (cols prhs) \<longrightarrow>
            ?r = \<lparr>plhs0 = None,
                 trace = [truncation_warning, MxCreateFull (2 ^ j div 2) (cols prhs)] @
                   err_return nlhs ''Memory allocation failed''\<rparr>"
    by (simp add: run_explicit [OF p] after_def)
  have y: "MXCREATEFULL h (2 ^ j div 2) (cols prhs) \<longrightarrow>
            ?r = \<lparr>plhs0 = Some (2 ^ j div 2, cols prhs),
                 trace = [truncation_warning, MxCreateFull (2 ^ j div 2) (cols prhs),
                          Pwvd61 ?l] @
                   (if pwvd61 h (prhs ! 0) (sig_len (prhs ! 0)) (cols prhs)
                         (mxGetPr0 (prhs ! 2)) (sig_len (prhs ! 0)) (2 ^ j) (int j) (2 ^ i)
                       \<noteq> 0
                    then err_return nlhs ''Function failed'' else [])\<rparr>"
    by (simp add: run_explicit [OF p] after_def)
  from ij a' m n y
  show "\<exists>i\<le>30. \<exists>j\<le>30. \<exists>l r.
         l = \<lparr>signal_length = sig_len (prhs ! 0), window_length = sig_len (prhs ! 0),
              time_res = mxGetPr0 (prhs ! 2), deg = 2 ^ i,
              fft_length = effective_fft prhs, nplts = cols prhs,
              window_order = int j, window_r2 = 2 ^ j\<rparr> \<and>
         mexFunction_args h nlhs prhs = Some (Inr ([truncation_warning], l)) \<and>
         mexFunction h nlhs prhs = Some r \<and>
         (\<not> MXCREATEFULL h (2 ^ j div 2) (cols prhs) \<longrightarrow>
            r = \<lparr>plhs0 = None,
                 trace = [truncation_warning, MxCreateFull (2 ^ j div 2) (cols prhs)] @
                   err_return nlhs ''Memory allocation failed''\<rparr>) \<and>
         (MXCREATEFULL h (2 ^ j div 2) (cols prhs) \<longrightarrow>
            r = \<lparr>plhs0 = Some (2 ^ j div 2, cols prhs),
                 trace = [truncation_warning, MxCreateFull (2 ^ j div 2) (cols prhs),
                          Pwvd61 l] @
                   (if pwvd61 h (prhs ! 0) (sig_len (prhs ! 0)) (cols prhs)
                         (mxGetPr0 (prhs ! 2)) (sig_len (prhs ! 0)) (2 ^ j) (int j) (2 ^ i)
                       \<noteq> 0
                    then err_return nlhs ''Function failed'' else [])\<rparr>)"
    by blast
qed

text \<open>
  At the signal of 16 samples with the window length 40, with an engine that checks the
  window length it receives: the warning, a 64 by 6 matrix, and no error.
\<close>

theorem window_clamped_witness:
  "valid_call host_checking 1 call_wide \<and>
   sig_len (call_wide ! 0) < mxGetPr0 (call_wide ! 1) \<and>
   mxGetPr0 (call_wide ! 3) \<le> 2 ^ 30 \<and> effective_fft call_wide \<le> 2 ^ 30 \<and>
   mexFunction host_checking 1 call_wide =
     Some \<lparr>plhs0 = Some (64, 6),
           trace = [truncation_warning, MxCreateFull 64 6, Pwvd61 locals_wide]\<rparr>"
proof -
  let ?h = host_checking
  let ?c = call_wide
  have v: "valid_call ?h 1 ?c"
    and w: "sig_len (?c ! 0) < mxGetPr0 (?c ! 1)"
    and b: "mxGetPr0 (?c ! 3) \<le> 2 ^ 30 \<and> effective_fft ?c \<le> 2 ^ 30"
    and n: "cols ?c = 6" "sig_len (?c ! 0) = 16" "mxGetPr0 (?c ! 2) = 3"
    by (simp_all add: call_wide_def example_defs2 vocab_eval)
  have a: "mexFunction_args ?h 1 ?c = Some (Inr ([truncation_warning], locals_wide))"
    by (simp add: mexFunction_args_def call_wide_def example_defs2 Let_def loop_eval
        c_int_c_ceil truncation_warning_def locals_wide_def)
  from window_clamped [OF v w] b obtain i j l r where
    l: "l = \<lparr>signal_length = sig_len (?c ! 0), window_length = sig_len (?c ! 0),
              time_res = mxGetPr0 (?c ! 2), deg = 2 ^ i,
              fft_length = effective_fft ?c, nplts = cols ?c,
              window_order = int j, window_r2 = 2 ^ j\<rparr>"
    and a': "mexFunction_args ?h 1 ?c = Some (Inr ([truncation_warning], l))"
    and m: "mexFunction ?h 1 ?c = Some r"
    and y: "MXCREATEFULL ?h (2 ^ j div 2) (cols ?c) \<longrightarrow>
            r = \<lparr>plhs0 = Some (2 ^ j div 2, cols ?c),
                 trace = [truncation_warning, MxCreateFull (2 ^ j div 2) (cols ?c),
                          Pwvd61 l] @
                   (if pwvd61 ?h (?c ! 0) (sig_len (?c ! 0)) (cols ?c)
                         (mxGetPr0 (?c ! 2)) (sig_len (?c ! 0)) (2 ^ j) (int j) (2 ^ i)
                       \<noteq> 0
                    then err_return 1 ''Function failed'' else [])\<rparr>"
    by blast
  from a a' have ll: "l = locals_wide" by simp
  with l have j: "(2::int) ^ j = 128"
    by (simp add: locals_wide_def)
  have al: "MXCREATEFULL ?h (2 ^ j div 2) (cols ?c)"
    by (simp add: host_checking_def)
  have e: "pwvd61 ?h (?c ! 0) (sig_len (?c ! 0)) (cols ?c)
                         (mxGetPr0 (?c ! 2)) (sig_len (?c ! 0)) (2 ^ j) (int j) (2 ^ i) = 0"
    by (simp add: host_checking_def)
  from y al e have "r = \<lparr>plhs0 = Some (64, 6),
           trace = [truncation_warning, MxCreateFull 64 6, Pwvd61 locals_wide]\<rparr>"
    by (simp add: j n ll)
  with m v w b show ?thesis by simp
qed

text \<open>
  Without the bound the statement fails, at a valid call with the window length 40 on 16
  samples and the degree \<open>2 ^ 30 + 1\<close>: the gateway does not return, nothing is
  allocated and the engine is not called.
\<close>

theorem window_clamped_counterexample:
  "valid_call (host_with 0) 1 [vector 1 16, scalar 40, scalar 2, scalar (2 ^ 30 + 1)] \<and>
   sig_len ([vector 1 16, scalar 40, scalar 2, scalar (2 ^ 30 + 1)] ! 0)
     < mxGetPr0 ([vector 1 16, scalar 40, scalar 2, scalar (2 ^ 30 + 1)] ! 1) \<and>
   mexFunction (host_with 0) 1
     [vector 1 16, scalar 40, scalar 2, scalar (2 ^ 30 + 1)] = None"
proof -
  let ?c = "[vector 1 16, scalar 40, scalar 2, scalar (2 ^ 30 + 1)]"
  have v: "valid_call (host_with 0) 1 ?c"
    and w: "sig_len (?c ! 0) < mxGetPr0 (?c ! 1)"
    and d: "mxGetPr0 (?c ! 3) = 2 ^ 30 + 1"
    by (simp_all add: example_defs vocab_eval)
  have "deg_loop 1 (mxGetPr0 (?c ! 3)) = None"
    unfolding d by (rule deg_loop_one_diverges) simp
  then have "mexFunction_args (host_with 0) 1 ?c = None"
    unfolding args_valid_eq [OF v] by simp
  then have "mexFunction (host_with 0) 1 ?c = None"
    by (simp add: mexFunction_def)
  with v w show ?thesis by blast
qed

subsection \<open>C5: parameters out of range\<close>

text \<open>
  C5, as amended. In a call with four or five arguments, at most one output and a signal
  that passes the shape test: a window length below 1 (0 in particular) is rejected with
  "Window length must be greater than zero"; with a window length of at least 1, a time
  step below 1 (0 in particular) is rejected with "Time resolution must be greater than
  zero"; and with the first four arguments valid and the degree at most \<open>2 ^ 30\<close>, a
  transform length below 0 (\<open>- 1\<close> in particular) is rejected with "FFT length must be
  greater than zero". In each case \<open>plhs[0]\<close> is not assigned, and nothing is called but
  the truncation warning (when the window was clamped), \<open>tfsaErr\<close> and \<open>winNTcheck\<close>.
\<close>

theorem parameter_rejected:
  assumes "4 \<le> length prhs" "length prhs \<le> 5" "nlhs \<le> 1" "accepted_shape (prhs ! 0)"
    "GoodScalar h (prhs ! 1)"
  shows "(mxGetPr0 (prhs ! 1) < 1 \<longrightarrow>
      mexFunction h nlhs prhs =
        rejected nlhs [] ''Window length must be greater than zero'') \<and>
    (1 \<le> mxGetPr0 (prhs ! 1) \<and> GoodScalar h (prhs ! 2) \<and> mxGetPr0 (prhs ! 2) < 1 \<longrightarrow>
      mexFunction h nlhs prhs =
        rejected nlhs (clamp_warning prhs) ''Time resolution must be greater than zero'') \<and>
    (1 \<le> mxGetPr0 (prhs ! 1) \<and> GoodScalar h (prhs ! 2) \<and> 1 \<le> mxGetPr0 (prhs ! 2) \<and>
     mxGetPr0 (prhs ! 2) \<le> sig_len (prhs ! 0) \<and> GoodScalar h (prhs ! 3) \<and>
     mxGetPr0 (prhs ! 3) \<le> 2 ^ 30 \<and> length prhs = 5 \<and> GoodScalar h (prhs ! 4) \<and>
     mxGetPr0 (prhs ! 4) < 0 \<longrightarrow>
      mexFunction h nlhs prhs =
        rejected nlhs (clamp_warning prhs) ''FFT length must be greater than zero'')"
  using assms
  by (simp add: mexFunction_def rejected_def rejected_window rejected_time(1) rejected_fft)

text \<open>The values 0, 0 and \<open>- 1\<close> on a signal of 16 samples.\<close>

theorem parameter_rejected_witness:
  "mexFunction (host_with 0) 1 [vector 1 16, scalar 0, scalar 2, scalar 3] =
     Some \<lparr>plhs0 = None, trace = [TfsaErr ''pwvd61''
       ''Window length must be greater than zero'', WinNTcheck 1]\<rparr> \<and>
   mexFunction (host_with 0) 1 [vector 1 16, scalar 4, scalar 0, scalar 3] =
     Some \<lparr>plhs0 = None, trace = [TfsaErr ''pwvd61''
       ''Time resolution must be greater than zero'', WinNTcheck 1]\<rparr> \<and>
   mexFunction (host_with 0) 1 [vector 1 16, scalar 4, scalar 2, scalar 3, scalar (- 1)] =
     Some \<lparr>plhs0 = None, trace = [TfsaErr ''pwvd61''
       ''FFT length must be greater than zero'', WinNTcheck 1]\<rparr>"
proof -
  let ?h = "host_with 0"
  let ?a = "[vector 1 16, scalar 0, scalar 2, scalar 3]"
  let ?b = "[vector 1 16, scalar 4, scalar 0, scalar 3]"
  let ?c = "[vector 1 16, scalar 4, scalar 2, scalar 3, scalar (- 1)]"
  have a: "4 \<le> length ?a" "length ?a \<le> 5" "(1::int) \<le> 1" "accepted_shape (?a ! 0)"
    "GoodScalar ?h (?a ! 1)" "mxGetPr0 (?a ! 1) < 1"
    by (simp_all add: example_defs vocab_eval)
  have b: "4 \<le> length ?b" "length ?b \<le> 5" "(1::int) \<le> 1" "accepted_shape (?b ! 0)"
    "GoodScalar ?h (?b ! 1)"
    "1 \<le> mxGetPr0 (?b ! 1) \<and> GoodScalar ?h (?b ! 2) \<and> mxGetPr0 (?b ! 2) < 1"
    "clamp_warning ?b = []"
    by (simp_all add: example_defs vocab_eval)
  have c: "4 \<le> length ?c" "length ?c \<le> 5" "(1::int) \<le> 1" "accepted_shape (?c ! 0)"
    "GoodScalar ?h (?c ! 1)"
    "1 \<le> mxGetPr0 (?c ! 1) \<and> GoodScalar ?h (?c ! 2) \<and> 1 \<le> mxGetPr0 (?c ! 2) \<and>
     mxGetPr0 (?c ! 2) \<le> sig_len (?c ! 0) \<and> GoodScalar ?h (?c ! 3) \<and>
     mxGetPr0 (?c ! 3) \<le> 2 ^ 30 \<and> length ?c = 5 \<and> GoodScalar ?h (?c ! 4) \<and>
     mxGetPr0 (?c ! 4) < 0"
    "clamp_warning ?c = []"
    by (simp_all add: example_defs vocab_eval)
  from parameter_rejected [OF a(1-5)] a(6)
  have 1: "mexFunction ?h 1 ?a = rejected 1 [] ''Window length must be greater than zero''"
    by blast
  from parameter_rejected [OF b(1-5)] b(6)
  have 2: "mexFunction ?h 1 ?b =
      rejected 1 (clamp_warning ?b) ''Time resolution must be greater than zero''"
    by blast
  from parameter_rejected [OF c(1-5)] c(6)
  have 3: "mexFunction ?h 1 ?c =
      rejected 1 (clamp_warning ?c) ''FFT length must be greater than zero''"
    by blast
  show ?thesis
    unfolding 1 2 3 b(7) c(7) by (simp add: rejected_def err_return_def)
qed

text \<open>
  Without the bound on the degree the statement fails for the transform length: the
  degree is rounded (lines 167 to 169) before the transform length is checked (line
  188), and at the degree \<open>2 ^ 30 + 1\<close> the call with the transform length \<open>- 1\<close> does
  not return, so that no error is reported.
\<close>

theorem parameter_rejected_counterexample:
  "mxGetPr0 ([vector 1 16, scalar 4, scalar 2, scalar (2 ^ 30 + 1), scalar (- 1)] ! 4) = - 1 \<and>
   mexFunction (host_with 0) 1
     [vector 1 16, scalar 4, scalar 2, scalar (2 ^ 30 + 1), scalar (- 1)] = None"
proof -
  have "deg_loop 1 (2 ^ 30 + 1) = None"
    by (rule deg_loop_one_diverges) simp
  then have "deg_loop 1 1073741825 = None" by simp
  then have "mexFunction_args (host_with 0) 1
      [vector 1 16, scalar 4, scalar 2, scalar (2 ^ 30 + 1), scalar (- 1)] = None"
    by (simp add: mexFunction_args_def example_defs Let_def)
  then show ?thesis by (simp add: mexFunction_def scalar_def)
qed

subsection \<open>C6: the shape of the signal\<close>

text \<open>
  C6. The shape test rejects what it names: an argument that is not numeric or not full,
  a 1 by 1 array, and an array with both dimensions different from 1 (the empty 0 by 0
  array among them), see \<open>shape_rejected\<close>. An empty array of 1 by 0 (or 0 by 1) passes
  it: neither are both dimensions 1 nor are both different from 1. The gateway then takes
  the signal length to be 1, allocates the output and calls the engine on a signal that
  has no sample.
\<close>

theorem empty_vector_accepted:
  "mexFunction (host_with 0) 1 [vector 1 0, scalar 1, scalar 1, scalar 1, scalar 4] =
     Some \<lparr>plhs0 = Some (2, 1), trace = [MxCreateFull 2 1,
       Pwvd61 \<lparr>signal_length = 1, window_length = 1, time_res = 1, deg = 1,
         fft_length = 4, nplts = 1, window_order = 2, window_r2 = 4\<rparr>]\<rparr>"
proof -
  let ?c = "[vector 1 0, scalar 1, scalar 1, scalar 1, scalar 4]"
  let ?l = "\<lparr>signal_length = 1, window_length = 1, time_res = 1, deg = 1,
         fft_length = 4, nplts = 1, window_order = 2, window_r2 = 4\<rparr>"
  have a: "mexFunction_args (host_with 0) 1 ?c = Some (Inr ([], ?l))"
    by (simp add: mexFunction_args_def example_defs Let_def loop_eval c_int_c_ceil)
  show ?thesis
    unfolding mexFunction_def a
    by (simp add: mexFunction_run_def after_def Let_def call_pwvd61_def host_with_def
        c_int_def)
qed

subsection \<open>C7: a time step longer than the signal\<close>

text \<open>
  C7. In a call with four or five arguments, at most one output, a signal that passes the
  shape test and a valid window length, a time step that is a good scalar of at least 1
  and exceeds the signal length is rejected with "Time resolution must be no greater than
  signal length", and \<open>plhs[0]\<close> is not assigned.
\<close>

theorem time_step_too_large:
  assumes "4 \<le> length prhs" "length prhs \<le> 5" "nlhs \<le> 1" "accepted_shape (prhs ! 0)"
    "GoodScalar h (prhs ! 1)" "1 \<le> mxGetPr0 (prhs ! 1)" "GoodScalar h (prhs ! 2)"
    "1 \<le> mxGetPr0 (prhs ! 2)" "sig_len (prhs ! 0) < mxGetPr0 (prhs ! 2)"
  shows "mexFunction h nlhs prhs =
     rejected nlhs (clamp_warning prhs)
       ''Time resolution must be no greater than signal length''"
  using assms by (simp add: mexFunction_def rejected_def rejected_time(2))

theorem time_step_too_large_witness:
  "mexFunction (host_with 0) 1 [vector 1 16, scalar 4, scalar 17, scalar 3] =
     Some \<lparr>plhs0 = None, trace = [TfsaErr ''pwvd61''
       ''Time resolution must be no greater than signal length'', WinNTcheck 1]\<rparr>"
proof -
  let ?h = "host_with 0"
  let ?a = "[vector 1 16, scalar 4, scalar 17, scalar 3]"
  have a: "4 \<le> length ?a" "length ?a \<le> 5" "(1::int) \<le> 1" "accepted_shape (?a ! 0)"
    "GoodScalar ?h (?a ! 1)" "1 \<le> mxGetPr0 (?a ! 1)" "GoodScalar ?h (?a ! 2)"
    "1 \<le> mxGetPr0 (?a ! 2)" "sig_len (?a ! 0) < mxGetPr0 (?a ! 2)"
    by (simp_all add: example_defs vocab_eval)
  have w: "clamp_warning ?a = []"
    by (simp add: example_defs vocab_eval)
  show ?thesis
    unfolding time_step_too_large [OF a] w by (simp add: rejected_def err_return_def)
qed

subsection \<open>C9: the number of arguments\<close>

text \<open>
  C9. Fewer than four arguments, more than five, and (with four or five) more than one
  requested output are rejected with "Not enough input arguments", "Too many input
  arguments" and "Too many output arguments"; any of the three conditions leads to a
  rejection that leaves \<open>plhs[0]\<close> unassigned. The outcome is the same for all host
  routines and for all contents of the arguments: neither the signal nor a parameter
  has been read.
\<close>

theorem arity_rejected:
  "(length prhs < 4 \<longrightarrow>
      mexFunction h nlhs prhs = rejected nlhs [] ''Not enough input arguments'') \<and>
   (5 < length prhs \<longrightarrow>
      mexFunction h nlhs prhs = rejected nlhs [] ''Too many input arguments'') \<and>
   (4 \<le> length prhs \<and> length prhs \<le> 5 \<and> 1 < nlhs \<longrightarrow>
      mexFunction h nlhs prhs = rejected nlhs [] ''Too many output arguments'') \<and>
   (length prhs < 4 \<or> 5 < length prhs \<or> 1 < nlhs \<longrightarrow>
      (\<exists>msg. mexFunction h nlhs prhs = rejected nlhs [] msg))"
  by (auto simp: mexFunction_def mexFunction_args_def rejected_def Let_def)

theorem arity_rejected_witness:
  "mexFunction (host_with 0) 1 [vector 1 16, scalar 4, scalar 2] =
     Some \<lparr>plhs0 = None,
       trace = [TfsaErr ''pwvd61'' ''Not enough input arguments'', WinNTcheck 1]\<rparr> \<and>
   mexFunction (host_with 0) 1
       [vector 1 16, scalar 4, scalar 2, scalar 3, scalar 8, scalar 0] =
     Some \<lparr>plhs0 = None,
       trace = [TfsaErr ''pwvd61'' ''Too many input arguments'', WinNTcheck 1]\<rparr> \<and>
   mexFunction (host_with 0) 2 call16 =
     Some \<lparr>plhs0 = None,
       trace = [TfsaErr ''pwvd61'' ''Too many output arguments'', WinNTcheck 2]\<rparr>"
proof -
  let ?h = "host_with 0"
  let ?a = "[vector 1 16, scalar 4, scalar 2]"
  let ?b = "[vector 1 16, scalar 4, scalar 2, scalar 3, scalar 8, scalar 0]"
  have a: "length ?a < 4" and b: "5 < length ?b"
    and c: "4 \<le> length call16 \<and> length call16 \<le> 5 \<and> (1::int) < 2"
    by (simp_all add: call16_def)
  from arity_rejected [of ?a ?h 1] a
  have 1: "mexFunction ?h 1 ?a = rejected 1 [] ''Not enough input arguments''" by blast
  from arity_rejected [of ?b ?h 1] b
  have 2: "mexFunction ?h 1 ?b = rejected 1 [] ''Too many input arguments''" by blast
  from arity_rejected [of call16 ?h 2] c
  have 3: "mexFunction ?h 2 call16 = rejected 2 [] ''Too many output arguments''" by blast
  show ?thesis unfolding 1 2 3 by (simp add: rejected_def err_return_def)
qed

subsection \<open>C10: a matrix without rows\<close>

text \<open>
  C10, as amended. In a valid call with the window length 1, the transform length absent
  or at most 1, and the degree at most \<open>2 ^ 30\<close>, parameter processing returns with
  \<open>window_r2 = 1\<close> and \<open>window_order = 0\<close>, and the gateway asks the allocator for a
  matrix of 0 rows. When the allocator succeeds \<open>plhs[0]\<close> is a matrix of 0 rows and the
  engine is called on it; the call ends without an error exactly when the engine returns
  0.
\<close>

theorem zero_rows:
  assumes v: "valid_call h nlhs prhs"
    and w: "mxGetPr0 (prhs ! 1) = 1"
    and t: "length prhs = 4 \<or> mxGetPr0 (prhs ! 4) \<le> 1"
    and d: "mxGetPr0 (prhs ! 3) \<le> 2 ^ 30"
  shows "\<exists>i\<le>30. \<exists>l r.
     l = \<lparr>signal_length = sig_len (prhs ! 0), window_length = 1,
          time_res = mxGetPr0 (prhs ! 2), deg = 2 ^ i, fft_length = 1,
          nplts = cols prhs, window_order = 0, window_r2 = 1\<rparr> \<and>
     mexFunction_args h nlhs prhs = Some (Inr ([], l)) \<and>
     mexFunction h nlhs prhs = Some r \<and>
     (\<not> MXCREATEFULL h 0 (cols prhs) \<longrightarrow>
        r = \<lparr>plhs0 = None,
             trace = MxCreateFull 0 (cols prhs) #
               err_return nlhs ''Memory allocation failed''\<rparr>) \<and>
     (MXCREATEFULL h 0 (cols prhs) \<longrightarrow>
        r = \<lparr>plhs0 = Some (0, cols prhs),
             trace = [MxCreateFull 0 (cols prhs), Pwvd61 l] @
               (if pwvd61 h (prhs ! 0) (sig_len (prhs ! 0)) (cols prhs)
                     (mxGetPr0 (prhs ! 2)) 1 1 0 (2 ^ i) \<noteq> 0
                then err_return nlhs ''Function failed'' else [])\<rparr>)"
proof -
  from v have s: "2 \<le> sig_len (prhs ! 0)"
    by (auto simp: valid_call_def signal_ok_def sig_len_def)
  with w have cw: "clamped_window prhs = 1" "clamp_warning prhs = []"
    by (simp_all add: clamped_window_def clamp_warning_def)
  from v t have f: "effective_fft prhs = 1"
    by (auto simp: valid_call_def effective_fft_def cw)
  from deg_loop_from_one [OF d] obtain i where i: "i \<le> 30"
    "deg_loop 1 (mxGetPr0 (prhs ! 3)) = Some (2 ^ i)" by blast
  let ?l = "\<lparr>signal_length = sig_len (prhs ! 0), window_length = 1,
          time_res = mxGetPr0 (prhs ! 2), deg = 2 ^ i, fft_length = 1,
          nplts = cols prhs, window_order = 0, window_r2 = 1\<rparr>"
  let ?r = "mexFunction_run h nlhs (prhs ! 0) ?l"
  have a: "mexFunction_args h nlhs prhs = Some (Inr ([], ?l))"
    by (simp add: args_valid_eq [OF v] i f cw radix_loop_stop cols_def)
  have m: "mexFunction h nlhs prhs = Some ?r"
    by (simp add: mexFunction_def a after_def)
  have p: "(0::int) \<le> window_r2 ?l" by simp
  have n: "\<not> MXCREATEFULL h 0 (cols prhs) \<longrightarrow>
        ?r = \<lparr>plhs0 = None,
             trace = MxCreateFull 0 (cols prhs) #
               err_return nlhs ''Memory allocation failed''\<rparr>"
    by (simp add: run_explicit [OF p])
  have y: "MXCREATEFULL h 0 (cols prhs) \<longrightarrow>
        ?r = \<lparr>plhs0 = Some (0, cols prhs),
             trace = [MxCreateFull 0 (cols prhs), Pwvd61 ?l] @
               (if pwvd61 h (prhs ! 0) (sig_len (prhs ! 0)) (cols prhs)
                     (mxGetPr0 (prhs ! 2)) 1 1 0 (2 ^ i) \<noteq> 0
                then err_return nlhs ''Function failed'' else [])\<rparr>"
    by (simp add: run_explicit [OF p])
  from i(1) a m n y show ?thesis by blast
qed

text \<open>
  At a signal of 16 samples with window length 1 and transform length 0, with an engine
  that returns 0: a 0 by 8 matrix and no error.
\<close>

theorem zero_rows_witness:
  "valid_call (host_with 0) 1 [vector 1 16, scalar 1, scalar 2, scalar 3, scalar 0] \<and>
   mxGetPr0 ([vector 1 16, scalar 1, scalar 2, scalar 3, scalar 0] ! 1) = 1 \<and>
   mxGetPr0 ([vector 1 16, scalar 1, scalar 2, scalar 3, scalar 0] ! 4) \<le> 1 \<and>
   mxGetPr0 ([vector 1 16, scalar 1, scalar 2, scalar 3, scalar 0] ! 3) \<le> 2 ^ 30 \<and>
   mexFunction (host_with 0) 1 [vector 1 16, scalar 1, scalar 2, scalar 3, scalar 0] =
     Some \<lparr>plhs0 = Some (0, 8), trace = [MxCreateFull 0 8, Pwvd61 locals_one]\<rparr>"
proof -
  let ?h = "host_with 0"
  let ?c = "[vector 1 16, scalar 1, scalar 2, scalar 3, scalar 0]"
  have v: "valid_call ?h 1 ?c"
    and w: "mxGetPr0 (?c ! 1) = 1"
    and t: "mxGetPr0 (?c ! 4) \<le> 1"
    and d: "mxGetPr0 (?c ! 3) \<le> 2 ^ 30"
    and n: "cols ?c = 8"
    by (simp_all add: example_defs vocab_eval)
  from t have t': "length ?c = 4 \<or> mxGetPr0 (?c ! 4) \<le> 1" ..
  have a: "mexFunction_args ?h 1 ?c = Some (Inr ([], locals_one))"
    by (simp add: mexFunction_args_def example_defs Let_def loop_eval c_int_c_ceil
        locals_one_def)
  from zero_rows [OF v w t' d] obtain i l r where
    a': "mexFunction_args ?h 1 ?c = Some (Inr ([], l))"
    and m: "mexFunction ?h 1 ?c = Some r"
    and y: "MXCREATEFULL ?h 0 (cols ?c) \<longrightarrow>
        r = \<lparr>plhs0 = Some (0, cols ?c),
             trace = [MxCreateFull 0 (cols ?c), Pwvd61 l] @
               (if pwvd61 ?h (?c ! 0) (sig_len (?c ! 0)) (cols ?c)
                     (mxGetPr0 (?c ! 2)) 1 1 0 (2 ^ i) \<noteq> 0
                then err_return 1 ''Function failed'' else [])\<rparr>"
    by blast
  from a a' have ll: "l = locals_one" by simp
  have al: "MXCREATEFULL ?h 0 (cols ?c)"
    and e: "pwvd61 ?h (?c ! 0) (sig_len (?c ! 0)) (cols ?c)
                     (mxGetPr0 (?c ! 2)) 1 1 0 (2 ^ i) = 0"
    by (simp_all add: host_with_def)
  from y al e have "r = \<lparr>plhs0 = Some (0, 8), trace = [MxCreateFull 0 8, Pwvd61 locals_one]\<rparr>"
    by (simp add: n ll)
  with m v w t d show ?thesis by simp
qed

text \<open>
  Without the bound the statement fails, at a valid call with the window length 1, no
  transform length and the degree \<open>2 ^ 30 + 1\<close>: no radix-2 length is computed and
  nothing is allocated.
\<close>

theorem zero_rows_counterexample:
  "valid_call (host_with 0) 1 [vector 1 16, scalar 1, scalar 2, scalar (2 ^ 30 + 1)] \<and>
   mxGetPr0 ([vector 1 16, scalar 1, scalar 2, scalar (2 ^ 30 + 1)] ! 1) = 1 \<and>
   length [vector 1 16, scalar 1, scalar 2, scalar (2 ^ 30 + 1)] = 4 \<and>
   mexFunction (host_with 0) 1
     [vector 1 16, scalar 1, scalar 2, scalar (2 ^ 30 + 1)] = None"
proof -
  let ?c = "[vector 1 16, scalar 1, scalar 2, scalar (2 ^ 30 + 1)]"
  have v: "valid_call (host_with 0) 1 ?c"
    and w: "mxGetPr0 (?c ! 1) = 1"
    and d: "mxGetPr0 (?c ! 3) = 2 ^ 30 + 1"
    by (simp_all add: example_defs vocab_eval)
  have "deg_loop 1 (mxGetPr0 (?c ! 3)) = None"
    unfolding d by (rule deg_loop_one_diverges) simp
  then have "mexFunction_args (host_with 0) 1 ?c = None"
    unfolding args_valid_eq [OF v] by simp
  then have "mexFunction (host_with 0) 1 ?c = None"
    by (simp add: mexFunction_def)
  with v w show ?thesis by simp
qed

end
